theory Spec2Isabelle
  imports Main
begin

section \<open>The pulse dashboard (app.py) as HOL functions\<close>

text \<open>
  The script is a Streamlit page: every interaction runs it from the top. It loads the
  observation table through \<^verbatim>\<open>load_data\<close> (decorated with \<^verbatim>\<open>@st.cache_data\<close>),
  then renders the page chosen in the sidebar. Modelled here are the loader and the writer
  (lines 23-36), \<^verbatim>\<open>send_alert_email\<close> (lines 39-55), the submission page (lines 62-87)
  and the alerts page (lines 118-134). The chart, map, citizen and export pages only render
  and are left out; so is the tail of the file after the footer (lines 173-199), a pasted
  repeat of the citizen and export pages that Python does not parse (line 176 is indented
  under no block). The model is of the script that ends with the footer at line 171.

  Everything outside the script is explicit:
  \<^item> the file \<^verbatim>\<open>pulse_data.csv\<close>, the cache entry of \<^verbatim>\<open>load_data\<close>, what the page has
    shown, each call of the detector and each delivery attempt are fields of a \<open>world\<close>;
  \<^item> \<^verbatim>\<open>IsolationForest(contamination=0.1).fit_predict\<close> is a parameter: a function from
    the feature matrix to labels, or to the exception it raises;
  \<^item> the mail relay is a parameter: what it answers, stage by stage, to the n-th session;
  \<^item> an exception is a value: every action returns \<open>Inl e\<close> when it raises \<open>e\<close>.
\<close>

subsection \<open>Cells, frames, exceptions\<close>

text \<open>
  A cell of a DataFrame. Numbers are integers (the form's number inputs and its slider
  yield integers); \<open>NaN\<close> is the missing value. A row gives the cell under each column
  name; a frame is its column index and its rows in order.
\<close>

datatype cell = IntCell int | StrCell string | NaN

type_synonym row = "string \<Rightarrow> cell"

record frame =
  columns :: "string list"
  rows :: "row list"

text \<open>
  The exception classes that occur. All of them derive from Python's \<^verbatim>\<open>Exception\<close>, so
  both the bare \<^verbatim>\<open>except:\<close> of \<^verbatim>\<open>load_data\<close> and the \<^verbatim>\<open>except Exception\<close> of
  \<^verbatim>\<open>send_alert_email\<close> catch every value of \<open>py_error\<close>. The string is the message
  the exception carries: its argument for a KeyError, \<^verbatim>\<open>str(e)\<close> for the others.
\<close>

datatype exc_class =
  KeyError | ValueError | FileNotFoundError | ParserError | SMTPException | OSError
  | UnicodeEncodeError

datatype py_error = PyError exc_class string

fun exc_text :: "py_error \<Rightarrow> string" where
  "exc_text (PyError c m) = m"

definition bind_exc :: "'e + 'a \<Rightarrow> ('a \<Rightarrow> 'e + 'b) \<Rightarrow> 'e + 'b" where
  "bind_exc m f = (case m of Inl e \<Rightarrow> Inl e | Inr x \<Rightarrow> f x)"

subsection \<open>Python's str and join\<close>

definition digit_char :: "nat \<Rightarrow> char" where
  "digit_char d = char_of (48 + d)"

fun str_nat :: "nat \<Rightarrow> string" where
  "str_nat n = (if n < 10 then [digit_char n] else str_nat (n div 10) @ [digit_char (n mod 10)])"

declare str_nat.simps [simp del]

definition str_int :: "int \<Rightarrow> string" where
  "str_int i = (if i < 0 then CHR ''-'' # str_nat (nat (- i)) else str_nat (nat i))"

fun py_str :: "cell \<Rightarrow> string" where
  "py_str (IntCell i) = str_int i"
| "py_str (StrCell s) = s"
| "py_str NaN = ''nan''"

fun join :: "string \<Rightarrow> string list \<Rightarrow> string" where
  "join sep [] = []"
| "join sep [x] = x"
| "join sep (x # y # ys) = x @ sep @ join sep (y # ys)"

subsection \<open>Python strings that need not be text\<close>

text \<open>
  The cells of a table and the values of the form are text: pandas and the browser decode
  them strictly, and \<open>string\<close> holds their UTF-8 bytes. A Python \<^verbatim>\<open>str\<close> in general may
  also hold surrogate code points that stand alone, which no UTF-8 text contains. The
  arguments of \<^verbatim>\<open>send_alert_email\<close> are such strings: a sequence of bytes of text and of
  lone surrogates, \<open>Surrogate n\<close> being the code point U+D800 + n for n below 2048.
\<close>

datatype py_char = Byte char | Surrogate nat

type_synonym py_text = "py_char list"

definition text_of :: "string \<Rightarrow> py_text" where
  "text_of s = map Byte s"

definition code_point :: "nat \<Rightarrow> nat" where
  "code_point n = 0xD800 + n mod 2048"

text \<open>
  \<^verbatim>\<open>str.encode('utf-8', 'surrogateescape')\<close>, which \<^verbatim>\<open>MIMEText\<close> applies to its body: a
  surrogate in U+DC80..U+DCFF becomes the byte 0x80..0xFF it escapes; any other surrogate
  cannot be encoded.
\<close>

fun escapable :: "py_char \<Rightarrow> bool" where
  "escapable (Byte c) = True"
| "escapable (Surrogate n) = (0xDC80 \<le> code_point n \<and> code_point n \<le> 0xDCFF)"

fun escape :: "py_char \<Rightarrow> char" where
  "escape (Byte c) = c"
| "escape (Surrogate n) = char_of (code_point n - 0xDC00)"

definition encodable :: "py_text \<Rightarrow> bool" where
  "encodable t = list_all escapable t"

text \<open>
  The message of the UnicodeEncodeError. Positions count code points: a byte starts one
  unless it is a continuation byte (0x80..0xBF). The error names the surrogates from the
  first that cannot be encoded to the end of the run of surrogates it stands in.
\<close>

fun starts_code_point :: "py_char \<Rightarrow> bool" where
  "starts_code_point (Byte c) = (\<not> (0x80 \<le> (of_char c :: nat) \<and> (of_char c :: nat) < 0xC0))"
| "starts_code_point (Surrogate n) = True"

fun is_surrogate :: "py_char \<Rightarrow> bool" where
  "is_surrogate (Byte c) = False"
| "is_surrogate (Surrogate n) = True"

definition hex_digit :: "nat \<Rightarrow> char" where
  "hex_digit d = (if d < 10 then char_of (48 + d) else char_of (87 + d))"

definition hex4 :: "nat \<Rightarrow> string" where
  "hex4 n = [hex_digit (n div 4096 mod 16), hex_digit (n div 256 mod 16),
             hex_digit (n div 16 mod 16), hex_digit (n mod 16)]"

fun escaped_name :: "py_char \<Rightarrow> string" where
  "escaped_name (Byte c) = [c]"
| "escaped_name (Surrogate n) = CHR 0x5C # CHR ''u'' # hex4 (code_point n)"

definition surrogates_not_allowed :: "py_text \<Rightarrow> string" where
  "surrogates_not_allowed t =
     (let start = length (filter starts_code_point (takeWhile escapable t));
          bad = takeWhile is_surrogate (dropWhile escapable t)
      in if length bad = 1
         then [CHR 0x27] @ ''utf-8'' @ [CHR 0x27] @ '' codec can'' @ [CHR 0x27] @
              ''t encode character '' @ [CHR 0x27] @ escaped_name (hd bad) @ [CHR 0x27] @
              '' in position '' @ str_nat start @ '': surrogates not allowed''
         else [CHR 0x27] @ ''utf-8'' @ [CHR 0x27] @ '' codec can'' @ [CHR 0x27] @
              ''t encode characters in position '' @ str_nat start @ ''-'' @
              str_nat (start + length bad - 1) @ '': surrogates not allowed'')"

subsection \<open>The world\<close>

datatype csv_file = Missing | Unparsable | Table frame

datatype ui_event = Title string | Warning string | Error string | Success string

record mail =
  Subject :: py_text
  From :: string
  To :: string
  payload :: string

record attempt =
  message :: mail
  outcome :: "py_error + unit"

record world =
  disk :: csv_file
  cache :: "frame option"
  ui :: "ui_event list"
  fit_calls :: "cell list list list"
  outbox :: "attempt list"

type_synonym 'a action = "world \<Rightarrow> (py_error + 'a) \<times> world"

definition st_title :: "string \<Rightarrow> world \<Rightarrow> world" where
  "st_title s w = w\<lparr>ui := ui w @ [Title s]\<rparr>"

definition st_warning :: "string \<Rightarrow> world \<Rightarrow> world" where
  "st_warning s w = w\<lparr>ui := ui w @ [Warning s]\<rparr>"

definition st_error :: "string \<Rightarrow> world \<Rightarrow> world" where
  "st_error s w = w\<lparr>ui := ui w @ [Error s]\<rparr>"

definition st_success :: "string \<Rightarrow> world \<Rightarrow> world" where
  "st_success s w = w\<lparr>ui := ui w @ [Success s]\<rparr>"

subsection \<open>Configuration (lines 17-20)\<close>

definition ALERT_EMAIL :: string where
  "ALERT_EMAIL = ''your-alert-email@example.com''"

definition SCHEMA :: "string list" where
  "SCHEMA = [''timestamp'', ''region'', ''sector'', ''visitor_count'', ''top_items'',
             ''queue_time'', ''payment_modes'', ''crowd_index'']"

subsection \<open>load_data and save_data (lines 23-36)\<close>

text \<open>
  The file is modelled by the table \<^verbatim>\<open>pd.read_csv\<close> parses from it: \<open>Missing\<close> when there
  is no file, \<open>Unparsable\<close> when pandas cannot read it. The CSV text itself is not
  modelled, and writing the file is taken to succeed.
\<close>

definition DataFrame_columns :: "string list \<Rightarrow> frame" where
  "DataFrame_columns cs = \<lparr>columns = cs, rows = []\<rparr>"

fun read_csv :: "csv_file \<Rightarrow> py_error + frame" where
  "read_csv Missing = Inl (PyError FileNotFoundError ''No such file or directory: pulse_data.csv'')"
| "read_csv Unparsable = Inl (PyError ParserError ''Error tokenizing data'')"
| "read_csv (Table df) = Inr df"

text \<open>The body of \<^verbatim>\<open>load_data\<close>: the bare \<^verbatim>\<open>except:\<close> replaces any failure of the read.\<close>

definition load_data_body :: "csv_file \<Rightarrow> py_error + frame" where
  "load_data_body f =
     (case read_csv f of
        Inr df \<Rightarrow> Inr df
      | Inl e \<Rightarrow> Inr (DataFrame_columns SCHEMA))"

text \<open>
  \<^verbatim>\<open>@st.cache_data\<close>: the body runs when the cache has no entry, and its result is stored;
  afterwards every call returns a copy of the stored value without reading the file.
  The entry has no expiry and nothing in the script clears it.
\<close>

definition load_data :: "frame action" where
  "load_data w =
     (case cache w of
        Some df \<Rightarrow> (Inr df, w)
      | None \<Rightarrow>
          (case load_data_body (disk w) of
             Inl e \<Rightarrow> (Inl e, w)
           | Inr df \<Rightarrow> (Inr df, w\<lparr>cache := Some df\<rparr>)))"

definition save_data :: "frame \<Rightarrow> unit action" where
  "save_data df w = (Inr (), w\<lparr>disk := Table df\<rparr>)"

subsection \<open>send_alert_email (lines 39-55)\<close>

text \<open>
  What the relay does in one session: the exception, if any, raised by opening the
  connection (\<^verbatim>\<open>smtplib.SMTP_SSL(...)\<close>), by \<^verbatim>\<open>login\<close>, by line 52 (rendering the
  message with \<^verbatim>\<open>as_string\<close> and handing it to \<^verbatim>\<open>sendmail\<close>), and by leaving the
  \<^verbatim>\<open>with\<close> block.
\<close>

record smtp_reply =
  on_connect :: "py_error option"
  on_login :: "py_error option"
  on_sendmail :: "py_error option"
  on_exit :: "py_error option"

type_synonym sink = "nat \<Rightarrow> mail \<Rightarrow> smtp_reply"

text \<open>
  The \<^verbatim>\<open>with\<close> block of lines 50-52. A failed connection raises before the block is
  entered; after that, leaving the block runs whether or not its body raised.
\<close>

definition smtp_session :: "smtp_reply \<Rightarrow> py_error + unit" where
  "smtp_session r =
     (case on_connect r of
        Some e \<Rightarrow> Inl e
      | None \<Rightarrow>
          (let block =
             (case on_login r of
                Some e \<Rightarrow> Inl e
              | None \<Rightarrow> (case on_sendmail r of Some e \<Rightarrow> Inl e | None \<Rightarrow> Inr ()))
           in case on_exit r of Some e \<Rightarrow> Inl e | None \<Rightarrow> block))"

definition sender :: string where
  "sender = ''your-sender-email@example.com''"

text \<open>
  Line 44, before the \<^verbatim>\<open>try\<close>: \<^verbatim>\<open>MIMEText(body)\<close> encodes the body and raises
  UnicodeEncodeError when it cannot. Its result here is the encoded payload.
\<close>

definition MIMEText :: "py_text \<Rightarrow> py_error + string" where
  "MIMEText body =
     (if encodable body then Inr (map escape body)
      else Inl (PyError UnicodeEncodeError (surrogates_not_allowed body)))"

text \<open>Lines 45-47: the three headers. Setting a header stores the value and does not raise.\<close>

definition with_headers :: "py_text \<Rightarrow> string \<Rightarrow> mail" where
  "with_headers subject p = \<lparr>Subject = subject, From = sender, To = ALERT_EMAIL, payload = p\<rparr>"

text \<open>
  Lines 49-55. Every attempt is recorded in the outbox with its outcome. \<open>report\<close> names
  the line the page shows for an outcome (line 53 or line 55).
\<close>

definition report :: "py_error + unit \<Rightarrow> ui_event" where
  "report res =
     (case res of
        Inr u \<Rightarrow> Success '' Alert email sent successfully!''
      | Inl e \<Rightarrow> Error ('' Failed to send alert: '' @ exc_text e))"

definition send_alert_email :: "sink \<Rightarrow> py_text \<Rightarrow> py_text \<Rightarrow> unit action" where
  "send_alert_email snk subject body w =
     (case MIMEText body of
        Inl e \<Rightarrow> (Inl e, w)
      | Inr p \<Rightarrow>
          (let msg = with_headers subject p;
               res = smtp_session (snk (length (outbox w)) msg);
               w1 = w\<lparr>outbox := outbox w @ [\<lparr>message = msg, outcome = res\<rparr>]\<rparr>
           in case res of
                Inr u \<Rightarrow> (Inr (), st_success '' Alert email sent successfully!'' w1)
              | Inl e \<Rightarrow> (Inr (), st_error ('' Failed to send alert: '' @ exc_text e) w1)))"

subsection \<open>The pandas operations the pages use\<close>

text \<open>
  \<^verbatim>\<open>df[[c1, ...]]\<close>: the named columns in the order asked. When some are absent pandas
  raises KeyError with the list of the absent names, and with another sentence when all
  are absent. \<open>py_list\<close> prints a list of names as Python prints a short list of plain
  strings.
\<close>

definition py_list :: "string list \<Rightarrow> string" where
  "py_list cs = ''['' @ join '', '' (map (\<lambda>c. [CHR 0x27] @ c @ [CHR 0x27]) cs) @ '']''"

definition not_in_index :: "string list \<Rightarrow> string list \<Rightarrow> string" where
  "not_in_index cs absent =
     (if length absent = length cs
      then ''None of [Index('' @ py_list cs @ '', dtype='' @ [CHR 0x27] @ ''object'' @
           [CHR 0x27] @ '')] are in the [columns]''
      else py_list absent @ '' not in index'')"

definition restrict_row :: "string list \<Rightarrow> row \<Rightarrow> row" where
  "restrict_row cs r = (\<lambda>c. if c \<in> set cs then r c else NaN)"

definition getitem_list :: "string list \<Rightarrow> frame \<Rightarrow> py_error + frame" where
  "getitem_list cs df =
     (let absent = filter (\<lambda>c. c \<notin> set (columns df)) cs
      in if absent = [] then Inr \<lparr>columns = cs, rows = map (restrict_row cs) (rows df)\<rparr>
         else Inl (PyError KeyError (not_in_index cs absent)))"

text \<open>The values of a frame as a matrix, one list of cells per row: what the detector receives.\<close>

definition to_matrix :: "frame \<Rightarrow> cell list list" where
  "to_matrix df = map (\<lambda>r. map r (columns df)) (rows df)"

text \<open>\<^verbatim>\<open>df[c]\<close>: one column, top to bottom.\<close>

definition getitem :: "string \<Rightarrow> frame \<Rightarrow> py_error + cell list" where
  "getitem c df =
     (if c \<in> set (columns df) then Inr (map (\<lambda>r. r c) (rows df))
      else Inl (PyError KeyError c))"

text \<open>
  \<^verbatim>\<open>df[c] = values\<close>: pandas refuses an array whose length is not the number of rows;
  otherwise the i-th value goes to the i-th row, in a new last column when \<open>c\<close> is new.
\<close>

definition setitem :: "string \<Rightarrow> cell list \<Rightarrow> frame \<Rightarrow> py_error + frame" where
  "setitem c vs df =
     (if length vs = length (rows df)
      then Inr \<lparr>columns = (if c \<in> set (columns df) then columns df else columns df @ [c]),
                rows = map (\<lambda>(r, v). r(c := v)) (zip (rows df) vs)\<rparr>
      else Inl (PyError ValueError
             (''Length of values ('' @ str_nat (length vs) @
              '') does not match length of index ('' @ str_nat (length (rows df)) @ '')'')))"

text \<open>\<^verbatim>\<open>df[mask]\<close>: the rows whose mask entry is true, in order.\<close>

definition getitem_mask :: "bool list \<Rightarrow> frame \<Rightarrow> frame" where
  "getitem_mask keep df =
     \<lparr>columns = columns df, rows = map fst (filter snd (zip (rows df) keep))\<rparr>"

text \<open>\<^verbatim>\<open>row[c]\<close> on a row that \<^verbatim>\<open>iterrows\<close> yields from a frame with columns \<open>cs\<close>.\<close>

definition row_getitem :: "string list \<Rightarrow> row \<Rightarrow> string \<Rightarrow> py_error + cell" where
  "row_getitem cs r c = (if c \<in> set cs then Inr (r c) else Inl (PyError KeyError c))"

text \<open>
  \<^verbatim>\<open>pd.concat([a, b], ignore_index=True)\<close>: the columns of \<open>a\<close>, then those of \<open>b\<close> that
  \<open>a\<close> lacks; the rows of \<open>a\<close>, then the rows of \<open>b\<close>, each with NaN under a column it
  did not have.
\<close>

definition pd_concat :: "frame \<Rightarrow> frame \<Rightarrow> frame" where
  "pd_concat a b =
     \<lparr>columns = columns a @ filter (\<lambda>c. c \<notin> set (columns a)) (columns b),
      rows = map (restrict_row (columns a)) (rows a) @ map (restrict_row (columns b)) (rows b)\<rparr>"

subsection \<open>The submission page (lines 62-87)\<close>

record form =
  region :: string
  sector :: string
  visitor_count :: int
  top_items :: string
  queue_time :: int
  payment_modes :: "string list"
  crowd_index :: int
  submitted :: bool

text \<open>A dict literal as a row: the cell under each key, NaN elsewhere.\<close>

definition row_of :: "(string \<times> cell) list \<Rightarrow> row" where
  "row_of kvs = (\<lambda>c. case map_of kvs c of Some v \<Rightarrow> v | None \<Rightarrow> NaN)"

text \<open>
  The one-row frame of lines 75-84; \<open>now\<close> is the reading of \<^verbatim>\<open>datetime.datetime.now()\<close>,
  kept as the text that is written to the file.
\<close>

definition new_entry :: "form \<Rightarrow> string \<Rightarrow> frame" where
  "new_entry f now =
     \<lparr>columns = SCHEMA,
      rows = [row_of
        [(''timestamp'', StrCell now),
         (''region'', StrCell (region f)),
         (''sector'', StrCell (sector f)),
         (''visitor_count'', IntCell (visitor_count f)),
         (''top_items'', StrCell (top_items f)),
         (''queue_time'', IntCell (queue_time f)),
         (''payment_modes'', StrCell (join '','' (payment_modes f))),
         (''crowd_index'', IntCell (crowd_index f))]]\<rparr>"

definition check_mark :: string where
  "check_mark = [CHR 0xE2, CHR 0x9C, CHR 0x85]"

definition submit_page :: "form \<Rightarrow> string \<Rightarrow> frame \<Rightarrow> frame action" where
  "submit_page f now data w0 =
     (let w = st_title '' Submit Daily Pulse Data'' w0
      in if submitted f
         then (let updated_data = pd_concat data (new_entry f now)
               in case save_data updated_data w of
                    (Inl e, w1) \<Rightarrow> (Inl e, w1)
                  | (Inr u, w1) \<Rightarrow>
                      (Inr data, st_success (check_mark @ '' Data submitted successfully!'') w1))
         else (Inr data, w))"

subsection \<open>The alerts page (lines 118-134)\<close>

type_synonym detector = "cell list list \<Rightarrow> py_error + int list"

definition FEATURES :: "string list" where
  "FEATURES = [''visitor_count'', ''queue_time'', ''crowd_index'']"

definition warning_sign :: string where
  "warning_sign = [CHR 0xE2, CHR 0x9A, CHR 0xA0, CHR 0xEF, CHR 0xB8, CHR 0x8F]"

definition em_dash :: string where
  "em_dash = [CHR 0xE2, CHR 0x80, CHR 0x94]"

text \<open>The f-string of line 129 reads region, sector, crowd_index and queue_time, in this order.\<close>

definition alert_text :: "cell \<Rightarrow> cell \<Rightarrow> cell \<Rightarrow> cell \<Rightarrow> string" where
  "alert_text reg sec ci qt =
     warning_sign @ '' Alert: Unusual activity in '' @ py_str reg @ '' ('' @ py_str sec @
     '') '' @ em_dash @ '' Crowd Index '' @ py_str ci @ '', Queue Time '' @ py_str qt @ '' mins''"

definition alert_msg :: "string list \<Rightarrow> row \<Rightarrow> py_error + string" where
  "alert_msg cs r =
     bind_exc (row_getitem cs r ''region'') (\<lambda>reg.
     bind_exc (row_getitem cs r ''sector'') (\<lambda>sec.
     bind_exc (row_getitem cs r ''crowd_index'') (\<lambda>ci.
     bind_exc (row_getitem cs r ''queue_time'') (\<lambda>qt.
       Inr (alert_text reg sec ci qt)))))"

text \<open>The f-string of line 132 reads sector, then region.\<close>

definition subject_text :: "cell \<Rightarrow> cell \<Rightarrow> string" where
  "subject_text sec reg = ''Alert: '' @ py_str sec @ '' anomaly in '' @ py_str reg"

definition alert_subject :: "string list \<Rightarrow> row \<Rightarrow> py_error + string" where
  "alert_subject cs r =
     bind_exc (row_getitem cs r ''sector'') (\<lambda>sec.
     bind_exc (row_getitem cs r ''region'') (\<lambda>reg.
       Inr (subject_text sec reg)))"

text \<open>The loop of lines 128-134 over the rows of \<^verbatim>\<open>alerts\<close>, whose columns are \<open>cs\<close>.\<close>

fun dispatch :: "sink \<Rightarrow> string list \<Rightarrow> row list \<Rightarrow> unit action" where
  "dispatch snk cs [] w = (Inr (), w)"
| "dispatch snk cs (r # rs) w =
     (case alert_msg cs r of
        Inl e \<Rightarrow> (Inl e, w)
      | Inr msg \<Rightarrow>
          (let w1 = st_error msg w
           in case alert_subject cs r of
                Inl e \<Rightarrow> (Inl e, w1)
              | Inr subj \<Rightarrow>
                  (case send_alert_email snk (text_of subj) (text_of msg) w1 of
                     (Inl e, w2) \<Rightarrow> (Inl e, w2)
                   | (Inr u, w2) \<Rightarrow> dispatch snk cs rs w2)))"

text \<open>
  The page. Its result is the table \<^verbatim>\<open>data\<close> as the run leaves it: unchanged when there
  are fewer than 10 rows, with the column \<^verbatim>\<open>anomaly\<close> otherwise.
\<close>

definition alerts_page :: "detector \<Rightarrow> sink \<Rightarrow> frame \<Rightarrow> frame action" where
  "alerts_page fit_predict snk data w0 =
     (let w = st_title '' Real-Time Surge & Anomaly Alerts'' w0
      in if length (rows data) < 10
         then (Inr data, st_warning ''Not enough data for anomaly detection.'' w)
         else
           (case getitem_list FEATURES data of
              Inl e \<Rightarrow> (Inl e, w)
            | Inr features \<Rightarrow>
                (let X = to_matrix features;
                     w1 = w\<lparr>fit_calls := fit_calls w @ [X]\<rparr>
                 in case fit_predict X of
                      Inl e \<Rightarrow> (Inl e, w1)
                    | Inr labels \<Rightarrow>
                        (case setitem ''anomaly'' (map IntCell labels) data of
                           Inl e \<Rightarrow> (Inl e, w1)
                         | Inr data' \<Rightarrow>
                             (case getitem ''anomaly'' data' of
                                Inl e \<Rightarrow> (Inl e, w1)
                              | Inr col \<Rightarrow>
                                  (let alerts = getitem_mask (map (\<lambda>v. v = IntCell (- 1)) col) data'
                                   in case dispatch snk (columns alerts) (rows alerts) w1 of
                                        (Inl e, w2) \<Rightarrow> (Inl e, w2)
                                      | (Inr u, w2) \<Rightarrow> (Inr data', w2)))))))"

subsection \<open>One run of the script\<close>

text \<open>
  Line 36 loads the table, then the sidebar's choice selects the page. \<open>SubmitPulse\<close>
  carries the form's values and the clock's reading.
\<close>

datatype request = SubmitPulse form string | Alerts

definition run_script :: "detector \<Rightarrow> sink \<Rightarrow> request \<Rightarrow> frame action" where
  "run_script fit_predict snk req w =
     (case load_data w of
        (Inl e, w1) \<Rightarrow> (Inl e, w1)
      | (Inr data, w1) \<Rightarrow>
          (case req of
             SubmitPulse f now \<Rightarrow> submit_page f now data w1
           | Alerts \<Rightarrow> alerts_page fit_predict snk data w1))"

subsection \<open>Repeated detection runs\<close>

text \<open>
  A sequence of requests for the alerts page. Each run has its own detector (the forest is
  refitted, with no fixed seed) and its own relay behaviour.
\<close>

fun detection_runs :: "(detector \<times> sink) list \<Rightarrow> world \<Rightarrow> world" where
  "detection_runs [] w = w"
| "detection_runs ((fit_predict, snk) # cfgs) w =
     detection_runs cfgs (snd (run_script fit_predict snk Alerts w))"

subsection \<open>Reading a run\<close>

text \<open>The mail that lines 129-134 build for a row that has the four columns they read.\<close>

definition alert_mail :: "row \<Rightarrow> mail" where
  "alert_mail r =
     with_headers (text_of (subject_text (r ''sector'') (r ''region'')))
       (alert_text (r ''region'') (r ''sector'') (r ''crowd_index'') (r ''queue_time''))"

text \<open>One column of the table in the file, top to bottom; empty when there is no table.\<close>

definition column_on_disk :: "string \<Rightarrow> world \<Rightarrow> cell list" where
  "column_on_disk c w = (case disk w of Table df \<Rightarrow> map (\<lambda>r. r c) (rows df) | _ \<Rightarrow> [])"

section \<open>Example inputs\<close>

text \<open>
  Concrete tables, relays and stand-ins for the fitted model, used to run the definitions
  above on explicit inputs.
\<close>

definition obs :: "string \<Rightarrow> string \<Rightarrow> cell \<Rightarrow> cell \<Rightarrow> cell \<Rightarrow> row" where
  "obs reg sec vc qt ci =
     row_of [(''timestamp'', StrCell ''2025-09-01 10:00:00''), (''region'', StrCell reg),
             (''sector'', StrCell sec), (''visitor_count'', vc), (''top_items'', StrCell ''tea''),
             (''queue_time'', qt), (''payment_modes'', StrCell ''Cash,UPI''), (''crowd_index'', ci)]"

definition calm :: row where
  "calm = obs ''Mumbai'' ''Retail'' (IntCell 40) (IntCell 7) (IntCell 3)"

definition surge :: row where
  "surge = obs ''Delhi'' ''Hospitality'' (IntCell 900) (IntCell 90) (IntCell 10)"





text \<open>Nine calm rows; nine calm rows and a surge; three surges among calm rows.\<close>

definition store9 :: frame where
  "store9 = \<lparr>columns = SCHEMA, rows = replicate 9 calm\<rparr>"

definition store10 :: frame where
  "store10 = \<lparr>columns = SCHEMA, rows = replicate 9 calm @ [surge]\<rparr>"

definition store12 :: frame where
  "store12 = \<lparr>columns = SCHEMA,
               rows = surge # replicate 4 calm @ surge # replicate 5 calm @ [surge]\<rparr>"

text \<open>\<open>store10\<close> after the run that flags its surge.\<close>

definition labelled10 :: frame where
  "labelled10 =
     \<lparr>columns = SCHEMA @ [''anomaly''],
      rows = map (\<lambda>(r, l). r(''anomaly'' := IntCell l))
                 (zip (replicate 9 calm @ [surge]) (replicate 9 1 @ [- 1]))\<rparr>"







text \<open>
  Stand-ins for the fitted model. \<open>flag_crowded\<close> flags the rows whose crowd index is 10.
  \<open>strict_detector\<close> refuses a matrix that holds text other than digits, with the message
  of numpy's conversion to float, as scikit-learn's input check does; on any other matrix,
  NaN included, it flags the rows whose queue time is 90.
\<close>

definition flag_crowded :: detector where
  "flag_crowded X = Inr (map (\<lambda>v. if last v = IntCell 10 then - 1 else 1) X)"

fun numeric :: "cell \<Rightarrow> bool" where
  "numeric (IntCell i) = True"
| "numeric (StrCell s) = (s \<noteq> [] \<and> list_all (\<lambda>c. c \<in> set ''0123456789'') s)"
| "numeric NaN = True"

definition flag_slow :: detector where
  "flag_slow X = Inr (map (\<lambda>v. if IntCell 90 \<in> set (take 1 (drop 1 v)) then - 1 else 1) X)"

definition strict_detector :: detector where
  "strict_detector X =
     (case filter (\<lambda>c. \<not> numeric c) (concat X) of
        [] \<Rightarrow> flag_slow X
      | c # cs \<Rightarrow>
          Inl (PyError ValueError
                 (''could not convert string to float: '' @ [CHR 0x27] @ py_str c @ [CHR 0x27])))"

text \<open>A relay that always delivers, one that refuses the login of the second session, and
  one that never accepts a connection.\<close>

definition delivered :: smtp_reply where
  "delivered = \<lparr>on_connect = None, on_login = None, on_sendmail = None, on_exit = None\<rparr>"

definition reliable :: sink where
  "reliable n m = delivered"

definition auth_error :: py_error where
  "auth_error = PyError SMTPException ''(535, Username and Password not accepted)''"

definition fails_second :: sink where
  "fails_second n m = (if n = 1 then delivered\<lparr>on_login := Some auth_error\<rparr> else delivered)"

definition refused :: sink where
  "refused n m = delivered\<lparr>on_connect := Some (PyError OSError ''Connection refused'')\<rparr>"

text \<open>A body that ends in the lone surrogate U+D800.\<close>

definition torn_body :: py_text where
  "torn_body = text_of ''Alert'' @ [Surrogate 0]"

text \<open>The world when the server starts: nothing cached, nothing shown, nothing sent.\<close>

definition fresh :: "csv_file \<Rightarrow> world" where
  "fresh f = \<lparr>disk = f, cache = None, ui = [], fit_calls = [], outbox = []\<rparr>"

definition form1 :: form where
  "form1 = \<lparr>region = ''Mumbai'', sector = ''Retail'', visitor_count = 40, top_items = ''tea'',
             queue_time = 7, payment_modes = [''Cash'', ''UPI''], crowd_index = 3,
             submitted = True\<rparr>"

definition form2 :: form where
  "form2 = \<lparr>region = ''Delhi'', sector = ''Hospitality'', visitor_count = 900,
             top_items = ''rooms'', queue_time = 90, payment_modes = [''Card''],
             crowd_index = 10, submitted = True\<rparr>"

section \<open>Basic facts\<close>

subsection \<open>The loader\<close>

lemma load_data_returns: "\<exists>df. fst (load_data w) = Inr df"
  by (auto simp: load_data_def load_data_body_def split: option.splits sum.splits)

lemma load_data_frame:
  "disk (snd (load_data w)) = disk w"
  "ui (snd (load_data w)) = ui w"
  "fit_calls (snd (load_data w)) = fit_calls w"
  "outbox (snd (load_data w)) = outbox w"
  by (auto simp: load_data_def load_data_body_def split: option.splits sum.splits)


lemma load_data_cached: "cache w = Some df \<Longrightarrow> load_data w = (Inr df, w)"
  by (simp add: load_data_def)

subsection \<open>One delivery attempt\<close>

lemma encodable_text_of: "encodable (text_of s)"
  by (induction s) (simp_all add: encodable_def text_of_def)

lemma escape_text_of: "map escape (text_of s) = s"
  by (induction s) (simp_all add: text_of_def)

lemma MIMEText_text_of: "MIMEText (text_of s) = Inr s"
  by (simp add: MIMEText_def encodable_text_of escape_text_of)

text \<open>A body that can be encoded: the attempt is made and the call returns.\<close>

lemma send_alert_email_encodable:
  "encodable body \<Longrightarrow>
   send_alert_email snk subject body w =
     (Inr (), w\<lparr>outbox := outbox w @
                  [\<lparr>message = with_headers subject (map escape body),
                    outcome = smtp_session
                      (snk (length (outbox w)) (with_headers subject (map escape body)))\<rparr>],
               ui := ui w @
                  [report (smtp_session
                      (snk (length (outbox w)) (with_headers subject (map escape body))))]\<rparr>)"
  by (simp add: send_alert_email_def MIMEText_def Let_def report_def st_success_def st_error_def
        split: sum.splits)

text \<open>A body that cannot be encoded: line 44 raises, and nothing else happens.\<close>

lemma send_alert_email_unencodable:
  "\<not> encodable body \<Longrightarrow>
   send_alert_email snk subject body w =
     (Inl (PyError UnicodeEncodeError (surrogates_not_allowed body)), w)"
  by (simp add: send_alert_email_def MIMEText_def)

lemma send_alert_email_text:
  "send_alert_email snk (text_of s) (text_of b) w =
     (Inr (), w\<lparr>outbox := outbox w @
                  [\<lparr>message = with_headers (text_of s) b,
                    outcome = smtp_session (snk (length (outbox w)) (with_headers (text_of s) b))\<rparr>],
               ui := ui w @
                  [report (smtp_session (snk (length (outbox w)) (with_headers (text_of s) b)))]\<rparr>)"
  by (simp add: send_alert_email_encodable encodable_text_of escape_text_of)

subsection \<open>The dispatch loop\<close>

lemma alert_msg_ok:
  assumes "''region'' \<in> set cs" "''sector'' \<in> set cs" "''crowd_index'' \<in> set cs"
    "''queue_time'' \<in> set cs"
  shows "alert_msg cs r =
     Inr (alert_text (r ''region'') (r ''sector'') (r ''crowd_index'') (r ''queue_time''))"
  using assms by (simp add: alert_msg_def bind_exc_def row_getitem_def)

lemma alert_subject_ok:
  assumes "''region'' \<in> set cs" "''sector'' \<in> set cs"
  shows "alert_subject cs r = Inr (subject_text (r ''sector'') (r ''region''))"
  using assms by (simp add: alert_subject_def bind_exc_def row_getitem_def)

text \<open>With the four columns present the loop runs to its end, whatever the relay answers.\<close>

lemma dispatch_ok:
  assumes "''region'' \<in> set cs" "''sector'' \<in> set cs" "''crowd_index'' \<in> set cs"
    "''queue_time'' \<in> set cs"
  shows "dispatch snk cs rs w =
     (Inr (),
      w\<lparr>outbox := outbox w @
           map (\<lambda>(k, r). \<lparr>message = alert_mail r,
                          outcome = smtp_session (snk k (alert_mail r))\<rparr>)
               (enumerate (length (outbox w)) rs),
        ui := ui w @
           concat (map (\<lambda>(k, r). [Error (payload (alert_mail r)),
                                   report (smtp_session (snk k (alert_mail r)))])
                       (enumerate (length (outbox w)) rs))\<rparr>)"
proof (induction rs arbitrary: w)
  case Nil
  show ?case by simp
next
  case (Cons r rs)
  show ?case
    by (simp add: alert_msg_ok [OF assms] alert_subject_ok [OF assms(1,2)] Let_def
          send_alert_email_text st_error_def Cons.IH alert_mail_def with_headers_def)
qed

text \<open>A loop that returns has made one attempt per row.\<close>

lemma dispatch_returns_outbox:
  "fst (dispatch snk cs rs w) = Inr u \<Longrightarrow>
   length (outbox (snd (dispatch snk cs rs w))) = length (outbox w) + length rs"
proof (induction rs arbitrary: w)
  case Nil
  show ?case by simp
next
  case (Cons r rs)
  then show ?case
    by (auto simp: Let_def send_alert_email_text st_error_def split: sum.splits)
qed

lemma dispatch_disk: "disk (snd (dispatch snk cs rs w)) = disk w"
proof (induction rs arbitrary: w)
  case Nil
  show ?case by simp
next
  case (Cons r rs)
  show ?case
    by (simp add: Let_def st_error_def send_alert_email_text Cons.IH split: sum.splits)
qed

lemma dispatch_fit_calls: "fit_calls (snd (dispatch snk cs rs w)) = fit_calls w"
proof (induction rs arbitrary: w)
  case Nil
  show ?case by simp
next
  case (Cons r rs)
  show ?case
    by (simp add: Let_def st_error_def send_alert_email_text Cons.IH split: sum.splits)
qed

subsection \<open>The pandas operations\<close>

lemma to_matrix_features:
  "getitem_list FEATURES data = Inr X \<Longrightarrow>
   to_matrix X = map (\<lambda>r. [r ''visitor_count'', r ''queue_time'', r ''crowd_index'']) (rows data)"
  by (auto simp: getitem_list_def Let_def to_matrix_def FEATURES_def restrict_row_def
        split: if_splits)

lemma setitem_rows:
  "setitem c vs df = Inr df' \<Longrightarrow>
   length vs = length (rows df) \<and> rows df' = map (\<lambda>(r, v). r(c := v)) (zip (rows df) vs)
   \<and> c \<in> set (columns df')"
  by (auto simp: setitem_def split: if_splits)

lemma column_after_setitem:
  "length rs = length vs \<Longrightarrow> map (\<lambda>r. r c) (map (\<lambda>(r, v). r(c := v)) (zip rs vs)) = vs"
  by (induction rs vs rule: list_induct2) auto

lemma filter_flagged:
  "length rs = length ls \<Longrightarrow>
   length (filter snd (zip rs (map (\<lambda>v. v = IntCell (- 1)) (map IntCell ls)))) =
   length (filter (\<lambda>l. l = - 1) ls)"
  by (induction rs ls rule: list_induct2) auto

lemma flagged_rows:
  "length rs = length ls \<Longrightarrow>
   map fst (filter snd (zip (map (\<lambda>(r, v). r(''anomaly'' := v)) (zip rs (map IntCell ls)))
                            (map (\<lambda>v. v = IntCell (- 1)) (map IntCell ls)))) =
   map (\<lambda>(r, l). r(''anomaly'' := IntCell l)) (filter (\<lambda>(r, l). l = - 1) (zip rs ls))"
  by (induction rs ls rule: list_induct2) auto

lemma alert_mail_anomaly: "alert_mail (r(''anomaly'' := v)) = alert_mail r"
  by (simp add: alert_mail_def)



subsection \<open>The alerts page\<close>

lemma alerts_page_small:
  "length (rows data) < 10 \<Longrightarrow>
   alerts_page fit_predict snk data w =
     (Inr data, w\<lparr>ui := ui w @ [Title '' Real-Time Surge & Anomaly Alerts'',
                                  Warning ''Not enough data for anomaly detection.'']\<rparr>)"
  by (simp add: alerts_page_def Let_def st_title_def st_warning_def)

lemma alerts_page_disk: "disk (snd (alerts_page fit_predict snk data w)) = disk w"
  by (simp add: alerts_page_def Let_def st_title_def st_warning_def dispatch_disk
        case_prod_beta split: sum.splits)

lemma run_script_disk: "disk (snd (run_script fit_predict snk Alerts w)) = disk w"
  using load_data_returns [of w]
  by (auto simp: run_script_def case_prod_beta alerts_page_disk load_data_frame
        split: sum.splits)

text \<open>
  A run on ten or more rows whose feature, region and sector columns are present and whose
  detector returns one label per row: the table gets the labels, and the loop is handed
  exactly the rows labelled \<open>-1\<close>, in the table's order.
\<close>

lemma alerts_page_run:
  assumes big: "10 \<le> length (rows data)"
    and reg: "''region'' \<in> set (columns data)" and sec: "''sector'' \<in> set (columns data)"
    and X: "getitem_list FEATURES data = Inr X"
    and L: "fit_predict (to_matrix X) = Inr labels"
    and len: "length labels = length (rows data)"
  shows "fst (alerts_page fit_predict snk data w) =
           Inr \<lparr>columns = (if ''anomaly'' \<in> set (columns data) then columns data
                           else columns data @ [''anomaly'']),
                rows = map (\<lambda>(r, l). r(''anomaly'' := IntCell l)) (zip (rows data) labels)\<rparr>
       \<and> outbox (snd (alerts_page fit_predict snk data w)) =
           outbox w @
           map (\<lambda>(k, r). \<lparr>message = alert_mail r,
                          outcome = smtp_session (snk k (alert_mail r))\<rparr>)
               (enumerate (length (outbox w))
                  (map fst (filter (\<lambda>(r, l). l = - 1) (zip (rows data) labels))))"
proof -
  have cols: "''crowd_index'' \<in> set (columns data)" "''queue_time'' \<in> set (columns data)"
    using X by (auto simp: getitem_list_def Let_def FEATURES_def split: if_splits)
  define data' where "data' =
    \<lparr>columns = (if ''anomaly'' \<in> set (columns data) then columns data
                 else columns data @ [''anomaly'']),
      rows = map (\<lambda>(r, v). r(''anomaly'' := v)) (zip (rows data) (map IntCell labels))\<rparr>"
  have S: "setitem ''anomaly'' (map IntCell labels) data = Inr data'"
    by (simp add: setitem_def len data'_def)
  have G: "getitem ''anomaly'' data' = Inr (map IntCell labels)"
    using column_after_setitem [of "rows data" "map IntCell labels" "''anomaly''"]
    by (simp add: getitem_def data'_def len)
  define alerts where
    "alerts = getitem_mask (map (\<lambda>v. v = IntCell (- 1)) (map IntCell labels)) data'"
  define w1 where "w1 = (st_title '' Real-Time Surge & Anomaly Alerts'' w)
     \<lparr>fit_calls := fit_calls (st_title '' Real-Time Surge & Anomaly Alerts'' w) @ [to_matrix X]\<rparr>"
  have ob: "outbox w1 = outbox w"
    by (simp add: w1_def st_title_def)
  have nb: "(length (rows data) < 10) = False"
    using big by simp
  have P: "alerts_page fit_predict snk data w =
      (case dispatch snk (columns alerts) (rows alerts) w1 of
         (Inl e, w2) \<Rightarrow> (Inl e, w2)
       | (Inr u, w2) \<Rightarrow> (Inr data', w2))"
    unfolding alerts_page_def Let_def alerts_def w1_def
    by (simp only: nb if_False X L S G sum.case)
  have ca: "''region'' \<in> set (columns alerts)" "''sector'' \<in> set (columns alerts)"
    "''crowd_index'' \<in> set (columns alerts)" "''queue_time'' \<in> set (columns alerts)"
    using reg sec cols by (auto simp: alerts_def getitem_mask_def data'_def)
  have F: "rows alerts =
      map (\<lambda>(r, l). r(''anomaly'' := IntCell l))
          (filter (\<lambda>(r, l). l = - 1) (zip (rows data) labels))"
    using flagged_rows [of "rows data" labels] len
    by (simp add: alerts_def getitem_mask_def data'_def)
  have E: "map (\<lambda>(k, r). \<lparr>message = alert_mail r,
                           outcome = smtp_session (snk k (alert_mail r))\<rparr>)
             (enumerate n (map (\<lambda>(r, l). r(''anomaly'' := IntCell l)) ps)) =
           map (\<lambda>(k, r). \<lparr>message = alert_mail r,
                           outcome = smtp_session (snk k (alert_mail r))\<rparr>)
             (enumerate n (map fst ps))" for n and ps :: "(row \<times> int) list"
    by (induction ps arbitrary: n) (auto simp: alert_mail_anomaly)
  have r': "rows data' = map (\<lambda>(r, l). r(''anomaly'' := IntCell l)) (zip (rows data) labels)"
    by (simp add: data'_def zip_map2 case_prod_beta)
  have c': "columns data' = (if ''anomaly'' \<in> set (columns data) then columns data
                            else columns data @ [''anomaly''])"
    by (simp add: data'_def)
  have d': "data' =
      \<lparr>columns = (if ''anomaly'' \<in> set (columns data) then columns data
                   else columns data @ [''anomaly'']),
        rows = map (\<lambda>(r, l). r(''anomaly'' := IntCell l)) (zip (rows data) labels)\<rparr>"
    using r' c' by (cases data') simp
  have R: "alerts_page fit_predict snk data w =
      (Inr data', snd (dispatch snk (columns alerts) (rows alerts) w1))"
    unfolding P by (simp add: dispatch_ok [OF ca])
  have O: "outbox (snd (dispatch snk (columns alerts) (rows alerts) w1)) =
           outbox w @
           map (\<lambda>(k, r). \<lparr>message = alert_mail r,
                          outcome = smtp_session (snk k (alert_mail r))\<rparr>)
               (enumerate (length (outbox w))
                  (map fst (filter (\<lambda>(r, l). l = - 1) (zip (rows data) labels))))"
    unfolding F by (simp only: dispatch_ok [OF ca] snd_conv ob E) simp
  show ?thesis
    unfolding R using O d' by simp
qed

subsection \<open>The submission page\<close>

lemma submit_writes:
  "submitted f \<Longrightarrow>
   snd (run_script fit_predict snk (SubmitPulse f now) w) =
     (let data = projr (fst (load_data w)); w1 = snd (load_data w)
      in w1\<lparr>disk := Table (pd_concat data (new_entry f now)),
             ui := ui w @ [Title '' Submit Daily Pulse Data'',
                           Success (check_mark @ '' Data submitted successfully!'')]\<rparr>)"
  by (auto simp: run_script_def load_data_def load_data_body_def submit_page_def Let_def
        save_data_def st_title_def st_success_def split: option.splits sum.splits)

text \<open>
  The first submission after a start finds no cache entry: what it writes is the table of
  the file with the new row at the end.
\<close>

lemma submit_cold:
  "submitted f \<Longrightarrow> cache w = None \<Longrightarrow> disk w = Table d \<Longrightarrow>
   disk (snd (run_script fit_predict snk (SubmitPulse f now) w)) =
     Table (pd_concat d (new_entry f now))
   \<and> cache (snd (run_script fit_predict snk (SubmitPulse f now) w)) = Some d"
  by (simp add: submit_writes load_data_def load_data_body_def)

text \<open>
  Every later submission finds the entry of the first load: what it writes is that table
  with the new row at the end, whatever the file holds by then.
\<close>

lemma submit_from_cache:
  "submitted f \<Longrightarrow> cache w = Some d \<Longrightarrow>
   disk (snd (run_script fit_predict snk (SubmitPulse f now) w)) =
     Table (pd_concat d (new_entry f now))
   \<and> cache (snd (run_script fit_predict snk (SubmitPulse f now) w)) = Some d"
  by (simp add: submit_writes load_data_def)

lemma pd_concat_rows:
  "rows (pd_concat a b) =
     map (restrict_row (columns a)) (rows a) @ map (restrict_row (columns b)) (rows b)"
  by (simp add: pd_concat_def)

subsection \<open>The example inputs\<close>

lemma features_store10:
  "map (\<lambda>r. [r ''visitor_count'', r ''queue_time'', r ''crowd_index'']) (rows store10) =
    replicate 9 [IntCell 40, IntCell 7, IntCell 3] @ [[IntCell 900, IntCell 90, IntCell 10]]"
  by (simp add: store10_def calm_def surge_def obs_def row_of_def)

lemma flag_store10:
  "flag_crowded
     (map (\<lambda>r. [r ''visitor_count'', r ''queue_time'', r ''crowd_index'']) (rows store10))
     = Inr (replicate 9 1 @ [- 1])"
  unfolding features_store10 by (simp add: flag_crowded_def)





lemma digit_char_5: "digit_char 5 = CHR ''5''"
  by (simp add: digit_char_def char_of_def bit_iff_odd)

lemma str_nat_5: "str_nat 5 = ''5''"
  by (simp add: str_nat.simps digit_char_5)

lemma hex4_d800: "hex4 55296 = ''d800''"
  by (simp add: hex4_def hex_digit_def char_of_def bit_iff_odd)

lemma str_nat_5': "str_nat (Suc (Suc (Suc (Suc (Suc 0))))) = ''5''"
  using str_nat_5 by (simp add: eval_nat_numeral)

lemma code_point_0: "code_point 0 = 0xD800"
  by (simp add: code_point_def)

lemma torn_body_not_encodable: "\<not> encodable torn_body"
  by (simp add: encodable_def torn_body_def text_of_def code_point_def)

lemma torn_body_message: "surrogates_not_allowed torn_body =
            ([CHR 0x27] @ ''utf-8'' @ [CHR 0x27] @ '' codec can'' @ [CHR 0x27] @
             ''t encode character '' @ [CHR 0x27, CHR 0x5C] @ ''ud800'' @ [CHR 0x27] @
             '' in position 5: surrogates not allowed'')"
  by (simp add: surrogates_not_allowed_def torn_body_def text_of_def Let_def str_nat_5' hex4_d800 code_point_0)

section \<open>The claims\<close>

subsection \<open>C1: fewer than ten rows\<close>

text \<open>
  Claim C1. When the table a run has loaded holds fewer than 10 observations, the run ends
  in the insufficient-data state: it returns normally with the table as it was, the page
  shows the title and the message "Not enough data for anomaly detection.", the detector
  is not called and no alert is handed to the relay. The table of a run is what
  \<^verbatim>\<open>load_data\<close> returns at line 36.
\<close>

theorem too_few_rows_ends_in_warning:
  assumes "fst (load_data w) = Inr data" and "length (rows data) < 10"
  shows "fst (run_script fit_predict snk Alerts w) = Inr data
       \<and> ui (snd (run_script fit_predict snk Alerts w)) =
           ui w @ [Title '' Real-Time Surge & Anomaly Alerts'',
                   Warning ''Not enough data for anomaly detection.'']
       \<and> fit_calls (snd (run_script fit_predict snk Alerts w)) = fit_calls w
       \<and> outbox (snd (run_script fit_predict snk Alerts w)) = outbox w"
  using assms
  by (simp add: run_script_def case_prod_beta alerts_page_small load_data_frame)

text \<open>Witness for C1: a start on a file of nine rows.\<close>

theorem too_few_rows_witness:
  "fst (load_data (fresh (Table store9))) = Inr store9 \<and> length (rows store9) < 10
   \<and> fst (run_script flag_crowded reliable Alerts (fresh (Table store9))) = Inr store9
   \<and> ui (snd (run_script flag_crowded reliable Alerts (fresh (Table store9)))) =
        [Title '' Real-Time Surge & Anomaly Alerts'',
         Warning ''Not enough data for anomaly detection.'']
   \<and> fit_calls (snd (run_script flag_crowded reliable Alerts (fresh (Table store9)))) = []
   \<and> outbox (snd (run_script flag_crowded reliable Alerts (fresh (Table store9)))) = []"
proof -
  have a: "fst (load_data (fresh (Table store9))) = Inr store9"
    by (simp add: load_data_def load_data_body_def fresh_def)
  have b: "length (rows store9) < 10"
    by (simp add: store9_def)
  show ?thesis
    using a b too_few_rows_ends_in_warning [OF a b, of flag_crowded reliable]
    by (simp add: fresh_def)
qed

subsection \<open>C2: one label per observation\<close>

text \<open>
  Claim C2 at a file of ten observations, one submission and a request for the alerts
  page, in one server process. The store then holds eleven observations. The run labels
  ten: line 36 gets the table of the first load from the cache, the detector receives a
  matrix of ten rows, and the observation submitted last gets no label. The claim gives
  every observation of the store exactly one label. This is the defect of C10: the
  loader is cached and nothing refreshes it. On the table a run has loaded the labels
  are aligned, as lemma \<open>alerts_page_run\<close> states.
\<close>

theorem late_submission_is_not_labelled:
  "column_on_disk ''region''
     (snd (run_script flag_crowded reliable (SubmitPulse form2 ''2025-09-01 10:05:00'')
        (fresh (Table store10))))
     = replicate 9 (StrCell ''Mumbai'') @ [StrCell ''Delhi'', StrCell ''Delhi'']
   \<and> fst (run_script flag_crowded reliable Alerts
        (snd (run_script flag_crowded reliable (SubmitPulse form2 ''2025-09-01 10:05:00'')
           (fresh (Table store10))))) = Inr labelled10
   \<and> length (rows labelled10) = 10
   \<and> map length (fit_calls (snd (run_script flag_crowded reliable Alerts
        (snd (run_script flag_crowded reliable (SubmitPulse form2 ''2025-09-01 10:05:00'')
           (fresh (Table store10))))))) = [10]"
proof -
  define w1 where "w1 = snd (run_script flag_crowded reliable
      (SubmitPulse form2 ''2025-09-01 10:05:00'') (fresh (Table store10)))"
  have sub: "submitted form2"
    by (simp add: form2_def)
  have w1: "disk w1 = Table (pd_concat store10 (new_entry form2 ''2025-09-01 10:05:00''))"
    "cache w1 = Some store10"
    using submit_cold [OF sub, of "fresh (Table store10)" store10 flag_crowded reliable]
    by (simp_all add: w1_def fresh_def)
  have dsk: "column_on_disk ''region'' w1
      = replicate 9 (StrCell ''Mumbai'') @ [StrCell ''Delhi'', StrCell ''Delhi'']"
    by (simp add: column_on_disk_def w1 pd_concat_def store10_def new_entry_def SCHEMA_def
          restrict_row_def calm_def surge_def obs_def row_of_def form2_def)
  have ld: "load_data w1 = (Inr store10, w1)"
    by (rule load_data_cached) (rule w1)
  have big: "10 \<le> length (rows store10)"
    by (simp add: store10_def)
  have X: "getitem_list FEATURES store10 =
      Inr \<lparr>columns = FEATURES, rows = map (restrict_row FEATURES) (rows store10)\<rparr>"
    by (simp add: getitem_list_def store10_def FEATURES_def SCHEMA_def)
  have L: "flag_crowded
        (to_matrix \<lparr>columns = FEATURES, rows = map (restrict_row FEATURES) (rows store10)\<rparr>)
      = Inr (replicate 9 1 @ [- 1])"
    unfolding to_matrix_features [OF X] by (rule flag_store10)
  have reg: "''region'' \<in> set (columns store10)" and sec: "''sector'' \<in> set (columns store10)"
    by (simp_all add: store10_def SCHEMA_def)
  have len: "length (replicate 9 (1::int) @ [- 1]) = length (rows store10)"
    by (simp add: store10_def)
  have run: "fst (alerts_page flag_crowded reliable store10 w1) = Inr labelled10"
    using alerts_page_run [where fit_predict = flag_crowded and snk = reliable
        and w = w1, OF big reg sec X L len]
    by (simp add: store10_def SCHEMA_def labelled10_def)
  have fc: "fit_calls (snd (alerts_page flag_crowded reliable store10 w1)) =
      fit_calls w1 @ [to_matrix \<lparr>columns = FEATURES, rows = map (restrict_row FEATURES) (rows store10)\<rparr>]"
    using big
    by (simp add: alerts_page_def Let_def X L case_prod_beta dispatch_fit_calls st_title_def
          split: sum.splits)
  have fc0: "fit_calls w1 = []"
    by (simp add: w1_def submit_writes [OF sub] Let_def load_data_frame fresh_def)
  have rs: "run_script flag_crowded reliable Alerts w1 = alerts_page flag_crowded reliable store10 w1"
    by (simp add: run_script_def ld)
  have l10: "length (rows labelled10) = 10"
    by (simp add: labelled10_def)
  show ?thesis
    unfolding w1_def [symmetric] rs
    using dsk run l10 by (simp add: fc fc0 to_matrix_features [OF X] features_store10)
qed

subsection \<open>C3: malformed observations\<close>




subsection \<open>C4: one delivery attempt per anomaly\<close>

text \<open>
  Claim C4. For every relay, every world and every sequence of anomalous observations
  (rows of a table that has the region, sector, crowd_index and queue_time columns), the
  loop of lines 128-134 returns normally whatever the relay answers. It makes exactly one
  delivery attempt per observation, in order; the outcome of the k-th attempt is what the
  relay answered to the k-th session alone; and for each observation the page shows the
  alert followed by the report of that attempt, success or failure.
\<close>

theorem delivery_failures_are_isolated:
  assumes "''region'' \<in> set cs" and "''sector'' \<in> set cs"
    and "''crowd_index'' \<in> set cs" and "''queue_time'' \<in> set cs"
  shows "fst (dispatch snk cs alerts w) = Inr ()
       \<and> outbox (snd (dispatch snk cs alerts w)) =
           outbox w @
           map (\<lambda>(k, r). \<lparr>message = alert_mail r,
                          outcome = smtp_session (snk k (alert_mail r))\<rparr>)
               (enumerate (length (outbox w)) alerts)
       \<and> ui (snd (dispatch snk cs alerts w)) =
           ui w @
           concat (map (\<lambda>(k, r). [Error (payload (alert_mail r)),
                                   report (smtp_session (snk k (alert_mail r)))])
                       (enumerate (length (outbox w)) alerts))"
  by (simp add: dispatch_ok [OF assms])

text \<open>Witness for C4: three anomalies, the relay refusing the login of the second session.\<close>

theorem delivery_failures_witness:
  "''region'' \<in> set SCHEMA \<and> ''sector'' \<in> set SCHEMA \<and> ''crowd_index'' \<in> set SCHEMA
   \<and> ''queue_time'' \<in> set SCHEMA
   \<and> fst (dispatch fails_second SCHEMA [surge, surge, surge] (fresh Missing)) = Inr ()
   \<and> map outcome (outbox (snd (dispatch fails_second SCHEMA [surge, surge, surge] (fresh Missing))))
       = [Inr (), Inl auth_error, Inr ()]
   \<and> map message (outbox (snd (dispatch fails_second SCHEMA [surge, surge, surge] (fresh Missing))))
       = [alert_mail surge, alert_mail surge, alert_mail surge]"
proof -
  have c: "''region'' \<in> set SCHEMA" "''sector'' \<in> set SCHEMA" "''crowd_index'' \<in> set SCHEMA"
    "''queue_time'' \<in> set SCHEMA"
    by (simp_all add: SCHEMA_def)
  have e: "enumerate 0 [surge, surge, surge] = [(0, surge), (1, surge), (2, surge)]"
    by (simp add: enumerate_eq_zip upt_rec)
  show ?thesis
    using c delivery_failures_are_isolated
      [OF c, of fails_second "[surge, surge, surge]" "fresh Missing"]
    by (simp add: fresh_def e fails_second_def smtp_session_def delivered_def)
qed

subsection \<open>C5: detection does not write the file\<close>

text \<open>
  Claim C5. After any number of runs of the alerts page, each with any detector and any
  relay, and from any world, the file holds what it held before: detection never appends
  to, deletes from or changes the stored table.
\<close>

theorem detection_leaves_file_unchanged:
  "disk (detection_runs cfgs w) = disk w"
  by (induction cfgs arbitrary: w) (auto simp: run_script_disk)

text \<open>Witness for C5: two runs over twelve rows, alerts sent in the first.\<close>

theorem detection_leaves_file_witness:
  "disk (detection_runs [(flag_crowded, fails_second), (strict_detector, reliable)]
           (fresh (Table store12))) = Table store12"
  using detection_leaves_file_unchanged
    [of "[(flag_crowded, fails_second), (strict_detector, reliable)]" "fresh (Table store12)"]
  by (simp add: fresh_def)

subsection \<open>C6: a failed read is an empty store\<close>

text \<open>
  Claim C6. Whatever the state of the file, when reading it fails (no file, or a file
  pandas cannot parse), \<^verbatim>\<open>load_data\<close> does not raise: its body returns the table with the
  eight columns of the schema and no rows, and that is what a call that reads the file
  (one that finds no cache entry) returns.
\<close>

theorem failed_read_gives_empty_schema:
  assumes "read_csv (disk w) = Inl e"
  shows "(\<exists>df. fst (load_data w) = Inr df)
       \<and> load_data_body (disk w) =
           Inr \<lparr>columns = [''timestamp'', ''region'', ''sector'', ''visitor_count'',
                           ''top_items'', ''queue_time'', ''payment_modes'', ''crowd_index''],
                rows = []\<rparr>
       \<and> (cache w = None \<longrightarrow> fst (load_data w) = load_data_body (disk w))"
  using assms
  by (auto simp: load_data_def load_data_body_def DataFrame_columns_def SCHEMA_def
        split: option.splits)

text \<open>Witness for C6: a start with no file.\<close>

theorem failed_read_witness:
  "read_csv (disk (fresh Missing)) =
     Inl (PyError FileNotFoundError ''No such file or directory: pulse_data.csv'')
   \<and> cache (fresh Missing) = None
   \<and> fst (load_data (fresh Missing)) =
       Inr \<lparr>columns = [''timestamp'', ''region'', ''sector'', ''visitor_count'',
                       ''top_items'', ''queue_time'', ''payment_modes'', ''crowd_index''],
            rows = []\<rparr>"
proof -
  have a: "read_csv (disk (fresh Missing)) =
     Inl (PyError FileNotFoundError ''No such file or directory: pulse_data.csv'')"
    by (simp add: fresh_def)
  have b: "cache (fresh Missing) = None"
    by (simp add: fresh_def)
  show ?thesis
    using a b failed_read_gives_empty_schema [OF a] by simp
qed

subsection \<open>C7: an unreadable store and the run\<close>

text \<open>
  Claim C7 as stated fails: with a file pandas cannot parse, the run of the alerts page
  does not fail. \<^verbatim>\<open>load_data\<close> swallows the error, and the run returns normally with the
  empty table and the not-enough-data warning.
\<close>

theorem unreadable_store_run_does_not_fail:
  "read_csv (disk (fresh Unparsable)) = Inl (PyError ParserError ''Error tokenizing data'')
   \<and> fst (run_script flag_crowded reliable Alerts (fresh Unparsable)) =
       Inr (DataFrame_columns SCHEMA)
   \<and> ui (snd (run_script flag_crowded reliable Alerts (fresh Unparsable))) =
        [Title '' Real-Time Surge & Anomaly Alerts'',
         Warning ''Not enough data for anomaly detection.'']"
  by (simp add: run_script_def load_data_def load_data_body_def fresh_def
        alerts_page_small DataFrame_columns_def)

text \<open>
  Claim C7, amended. If the store is unreadable when a run reads it (no cache entry), the
  run does not fail: the read error is replaced by the empty table, and the run ends in
  the insufficient-data state with the not-enough-data message. It calls no detector
  (no labels), sends no alert, and leaves the file as it was.
\<close>

theorem unreadable_store_reads_as_empty:
  assumes "read_csv (disk w) = Inl e" and "cache w = None"
  shows "fst (run_script fit_predict snk Alerts w) = Inr (DataFrame_columns SCHEMA)
       \<and> ui (snd (run_script fit_predict snk Alerts w)) =
           ui w @ [Title '' Real-Time Surge & Anomaly Alerts'',
                   Warning ''Not enough data for anomaly detection.'']
       \<and> fit_calls (snd (run_script fit_predict snk Alerts w)) = fit_calls w
       \<and> outbox (snd (run_script fit_predict snk Alerts w)) = outbox w
       \<and> disk (snd (run_script fit_predict snk Alerts w)) = disk w"
  using assms
  by (simp add: run_script_def load_data_def load_data_body_def
        alerts_page_small DataFrame_columns_def)

text \<open>Witness for C7: a start with no file.\<close>

theorem unreadable_store_witness:
  "read_csv (disk (fresh Missing)) =
     Inl (PyError FileNotFoundError ''No such file or directory: pulse_data.csv'')
   \<and> cache (fresh Missing) = None
   \<and> fst (run_script flag_crowded reliable Alerts (fresh Missing)) = Inr (DataFrame_columns SCHEMA)
   \<and> ui (snd (run_script flag_crowded reliable Alerts (fresh Missing))) =
        [Title '' Real-Time Surge & Anomaly Alerts'',
         Warning ''Not enough data for anomaly detection.'']
   \<and> fit_calls (snd (run_script flag_crowded reliable Alerts (fresh Missing))) = []
   \<and> outbox (snd (run_script flag_crowded reliable Alerts (fresh Missing))) = []"
proof -
  have a: "read_csv (disk (fresh Missing)) =
     Inl (PyError FileNotFoundError ''No such file or directory: pulse_data.csv'')"
    by (simp add: fresh_def)
  have b: "cache (fresh Missing) = None"
    by (simp add: fresh_def)
  show ?thesis
    using a b unreadable_store_reads_as_empty [OF a b, of flag_crowded reliable]
    by (simp add: fresh_def)
qed

subsection \<open>C8: repeated runs on an unchanged store\<close>

text \<open>
  Claim C8 speaks of the labels scikit-learn's isolation forest computes, with and without
  a fixed random seed. Line 123 passes no seed, and the forest's sampling and scores are
  not part of the script: here the detector of each run is a parameter, so the claim has
  no statement in this model.
\<close>

subsection \<open>C9: send_alert_email and the relay's failures\<close>

text \<open>
  Claim C9 as stated fails: it speaks of every body, and line 44 builds the message before
  the \<^verbatim>\<open>try\<close>. For a body that ends in the lone surrogate U+D800, \<^verbatim>\<open>MIMEText\<close> raises
  UnicodeEncodeError; the relay is never contacted, nothing is shown, and the exception
  reaches the caller.
\<close>

theorem torn_body_raises_before_try:
  "fst (send_alert_email reliable (text_of ''Alert'') torn_body (fresh Missing)) =
     Inl (PyError UnicodeEncodeError
            ([CHR 0x27] @ ''utf-8'' @ [CHR 0x27] @ '' codec can'' @ [CHR 0x27] @
             ''t encode character '' @ [CHR 0x27, CHR 0x5C] @ ''ud800'' @ [CHR 0x27] @
             '' in position 5: surrogates not allowed''))
   \<and> outbox (snd (send_alert_email reliable (text_of ''Alert'') torn_body (fresh Missing))) = []
   \<and> ui (snd (send_alert_email reliable (text_of ''Alert'') torn_body (fresh Missing))) = []"
  by (simp add: send_alert_email_unencodable [OF torn_body_not_encodable] torn_body_message fresh_def)

text \<open>
  Claim C9, amended. For every subject, every world, every relay and every body that
  \<^verbatim>\<open>MIMEText\<close> can encode (one without a surrogate outside U+DC80..U+DCFF, as is all text
  decoded from a file or a form), \<^verbatim>\<open>send_alert_email\<close> returns normally. Whenever its
  session with the relay raises an exception, the page shows "Failed to send alert:" with
  that exception's text; and the session does raise whenever opening the connection, the
  login or the sending raises. A body that cannot be encoded raises at line 44, outside
  the \<^verbatim>\<open>try\<close> (lemma \<open>send_alert_email_unencodable\<close>).
\<close>

theorem send_alert_email_catches_relay_errors:
  assumes "encodable body"
  shows "fst (send_alert_email snk subject body w) = Inr ()
   \<and> (\<forall>e. smtp_session (snk (length (outbox w)) (with_headers subject (map escape body))) = Inl e
          \<longrightarrow> ui (snd (send_alert_email snk subject body w)) =
                ui w @ [Error ('' Failed to send alert: '' @ exc_text e)])
   \<and> (\<forall>e. on_connect (snk (length (outbox w)) (with_headers subject (map escape body))) = Some e
          \<or> on_login (snk (length (outbox w)) (with_headers subject (map escape body))) = Some e
          \<or> on_sendmail (snk (length (outbox w)) (with_headers subject (map escape body))) = Some e
          \<longrightarrow> (\<exists>e'. smtp_session
                  (snk (length (outbox w)) (with_headers subject (map escape body))) = Inl e'))"
  by (auto simp: send_alert_email_encodable [OF assms] report_def smtp_session_def Let_def
        split: option.splits)

text \<open>Witness for C9: a relay that refuses the connection.\<close>

theorem send_alert_email_witness:
  "encodable (text_of ''b'')
   \<and> on_connect (refused (length (outbox (fresh Missing)))
        (with_headers (text_of ''s'') (map escape (text_of ''b'')))) =
      Some (PyError OSError ''Connection refused'')
   \<and> fst (send_alert_email refused (text_of ''s'') (text_of ''b'') (fresh Missing)) = Inr ()
   \<and> ui (snd (send_alert_email refused (text_of ''s'') (text_of ''b'') (fresh Missing))) =
        [Error '' Failed to send alert: Connection refused'']"
proof -
  have enc: "encodable (text_of ''b'')"
    by (rule encodable_text_of)
  have a: "on_connect (refused (length (outbox (fresh Missing)))
        (with_headers (text_of ''s'') (map escape (text_of ''b'')))) =
      Some (PyError OSError ''Connection refused'')"
    by (simp add: refused_def delivered_def)
  have s: "smtp_session (refused (length (outbox (fresh Missing)))
        (with_headers (text_of ''s'') (map escape (text_of ''b'')))) =
      Inl (PyError OSError ''Connection refused'')"
    by (simp add: smtp_session_def refused_def delivered_def)
  show ?thesis
    using enc a s
      send_alert_email_catches_relay_errors
        [OF enc, of refused "text_of ''s''" "fresh Missing"]
    by (simp add: fresh_def)
qed

subsection \<open>C10: a submission appends one record\<close>

text \<open>
  Claim C10 at two submissions in one server process, starting with no file. The first
  run caches the empty table and writes the Mumbai record. The second run gets the cached
  empty table again, not the file, and writes the Delhi record alone: the file then holds
  one record, and the Mumbai record is gone. Line 85 appends to what \<^verbatim>\<open>load_data\<close>
  returned, and \<^verbatim>\<open>@st.cache_data\<close> keeps that at the first load.
\<close>

theorem second_submission_drops_first:
  "column_on_disk ''region''
     (snd (run_script flag_crowded reliable (SubmitPulse form1 ''2025-09-01 10:00:00'')
        (fresh Missing))) = [StrCell ''Mumbai'']
   \<and> column_on_disk ''region''
     (snd (run_script flag_crowded reliable (SubmitPulse form2 ''2025-09-01 10:05:00'')
        (snd (run_script flag_crowded reliable (SubmitPulse form1 ''2025-09-01 10:00:00'')
           (fresh Missing))))) = [StrCell ''Delhi'']"
  by (simp add: submit_writes load_data_def load_data_body_def fresh_def Let_def
        column_on_disk_def pd_concat_def DataFrame_columns_def new_entry_def SCHEMA_def
        form1_def form2_def restrict_row_def row_of_def)

end
